theory Spec2Isabelle
  imports Main
begin

section \<open>The tool runner of \<^verbatim>\<open>src/node/lib/toolrunner.ts\<close>\<close>

text \<open>
  A shallow embedding of the class \<^verbatim>\<open>ToolRunner\<close>: the argument builder
  (\<^verbatim>\<open>_argStringToArray\<close>, \<^verbatim>\<open>arg\<close>, \<^verbatim>\<open>pathArg\<close>, \<^verbatim>\<open>argIf\<close>), the
  streaming invocation \<^verbatim>\<open>exec\<close> and the blocking invocation \<^verbatim>\<open>execSync\<close>.
  JavaScript strings are modelled as \<^typ>\<open>string\<close>; the program only distinguishes the
  double quote, the space and every other character.
\<close>

subsection \<open>Regular expressions with backtracking\<close>

text \<open>
  The fragment of JavaScript regular expressions that the tokenizer uses: a literal
  character, a negated character class \<^verbatim>\<open>[^...]\<close>, the greedy quantifiers \<^verbatim>\<open>*\<close> and
  \<^verbatim>\<open>+\<close>, concatenation and alternation. Groups only capture, and a global match returns
  whole matches, so they are not represented.
\<close>

datatype regex =
    Lit char
  | NoneOf "char list"
  | Star regex
  | Plus regex
  | Seq regex regex
  | Alt regex regex

text \<open>
  \<open>rmatch r s\<close> lists what is left of \<open>s\<close> after each way \<open>r\<close> can match a prefix of
  \<open>s\<close>, in the order in which a backtracking matcher tries them: the left alternative
  before the right one, more iterations of a greedy quantifier before fewer. An iteration
  of a quantifier that consumes nothing is not repeated.
\<close>

fun rmatch :: "regex \<Rightarrow> string \<Rightarrow> string list" where
  "rmatch (Lit c) s = (case s of [] \<Rightarrow> [] | x # t \<Rightarrow> (if x = c then [t] else []))"
| "rmatch (NoneOf cs) s = (case s of [] \<Rightarrow> [] | x # t \<Rightarrow> (if x \<in> set cs then [] else [t]))"
| "rmatch (Star r) s =
     concat (map (\<lambda>s'. if length s' < length s then rmatch (Star r) s' else []) (rmatch r s)) @ [s]"
| "rmatch (Plus r) s =
     concat (map (\<lambda>s'. if length s' < length s then rmatch (Star r) s' else [s']) (rmatch r s))"
| "rmatch (Seq r1 r2) s = concat (map (rmatch r2) (rmatch r1 s))"
| "rmatch (Alt r1 r2) s = rmatch r1 s @ rmatch r2 s"

text \<open>The first match of \<open>r\<close> at the start of \<open>s\<close>: the matched text and the rest.\<close>

definition matchHere :: "regex \<Rightarrow> string \<Rightarrow> (string \<times> string) option" where
  "matchHere r s =
     (case rmatch r s of
        [] \<Rightarrow> None
      | rest # _ \<Rightarrow> Some (take (length s - length rest) s, rest))"

text \<open>
  All matches of a global regular expression, from left to right: where there is no match
  at a position the search moves one character on; after a match it continues behind it,
  and behind an empty match one character further.
\<close>

fun matchAll :: "regex \<Rightarrow> string \<Rightarrow> string list" where
  "matchAll r s =
     (case matchHere r s of
        None \<Rightarrow> (case s of [] \<Rightarrow> [] | _ # t \<Rightarrow> matchAll r t)
      | Some (m, rest) \<Rightarrow>
          (if length rest < length s then m # matchAll r rest
           else (case s of [] \<Rightarrow> [m] | _ # t \<Rightarrow> m # matchAll r t)))"

text \<open>
  \<^verbatim>\<open>String.prototype.match\<close> with a global regular expression: the array of all matches,
  or \<^verbatim>\<open>null\<close> (here \<open>None\<close>) when there is none.
\<close>

definition js_match :: "string \<Rightarrow> regex \<Rightarrow> string list option" where
  "js_match s r = (case matchAll r s of [] \<Rightarrow> None | m # ms \<Rightarrow> Some (m # ms))"

text \<open>\<^verbatim>\<open>str.replace(/"/g, "")\<close>: every double quote is removed.\<close>

definition removeQuotes :: "string \<Rightarrow> string" where
  "removeQuotes str = filter (\<lambda>c. c \<noteq> CHR 0x22) str"

subsection \<open>The argument builder\<close>

datatype js_error = TypeError

text \<open>
  The fields of a \<^verbatim>\<open>ToolRunner\<close>. Its field \<^verbatim>\<open>silent\<close> is called \<open>quiet\<close> here, the
  name \<open>silent\<close> being kept for the execution option; it only decides whether \<^verbatim>\<open>_debug\<close>
  also calls the module's \<^verbatim>\<open>debug\<close> hook, which does nothing unless it is overridden.
\<close>

record ToolRunner =
  toolPath :: string
  args :: "string list"
  quiet :: bool

text \<open>The regular expression \<^verbatim>\<open>/([^" ]*("[^"]*")[^" ]*)|[^" ]+/g\<close>.\<close>

definition argRegex :: regex where
  "argRegex =
     Alt (Seq (Star (NoneOf [CHR 0x22, CHR '' '']))
            (Seq (Seq (Lit (CHR 0x22)) (Seq (Star (NoneOf [CHR 0x22])) (Lit (CHR 0x22))))
               (Star (NoneOf [CHR 0x22, CHR '' '']))))
         (Plus (NoneOf [CHR 0x22, CHR '' '']))"

text \<open>
  \<^verbatim>\<open>_argStringToArray\<close>. When \<^verbatim>\<open>match\<close> returns \<^verbatim>\<open>null\<close>, reading \<^verbatim>\<open>args.length\<close>
  raises a \<^verbatim>\<open>TypeError\<close>.
\<close>

definition argStringToArray :: "string \<Rightarrow> js_error + string list" where
  "argStringToArray argString =
     (case js_match argString argRegex of
        None \<Rightarrow> Inl TypeError
      | Some ms \<Rightarrow> Inr (map removeQuotes ms))"

text \<open>
  The argument \<^verbatim>\<open>val: any\<close> of \<^verbatim>\<open>arg\<close>: \<open>Absent\<close> stands for \<^verbatim>\<open>undefined\<close> and
  \<^verbatim>\<open>null\<close>, \<open>Other\<close> for a value that is neither an array nor a string, with its
  truthiness.
\<close>

datatype jsval = Absent | Str string | Arr "string list" | Other bool

fun falsy :: "jsval \<Rightarrow> bool" where
  "falsy Absent = True"
| "falsy (Str s) = (s = [])"
| "falsy (Arr xs) = False"
| "falsy (Other b) = (\<not> b)"

text \<open>
  \<^verbatim>\<open>arg\<close>. The calls of \<^verbatim>\<open>_debug\<close> only report the value and are left out.
\<close>

fun arg :: "ToolRunner \<Rightarrow> jsval \<Rightarrow> bool \<Rightarrow> js_error + ToolRunner" where
  "arg tr val literal =
     (if falsy val then Inr tr
      else (case val of
              Arr xs \<Rightarrow> Inr (tr\<lparr>args := args tr @ xs\<rparr>)
            | Str s \<Rightarrow>
                (if literal then Inr (tr\<lparr>args := args tr @ [s]\<rparr>)
                 else (case argStringToArray s of
                         Inl e \<Rightarrow> Inl e
                       | Inr ts \<Rightarrow> Inr (tr\<lparr>args := args tr @ ts\<rparr>)))
            | _ \<Rightarrow> Inr tr))"

definition pathArg :: "ToolRunner \<Rightarrow> string \<Rightarrow> js_error + ToolRunner" where
  "pathArg tr val = arg tr (Str val) True"

definition argIf :: "ToolRunner \<Rightarrow> bool \<Rightarrow> jsval \<Rightarrow> js_error + ToolRunner" where
  "argIf tr condition val = (if condition then arg tr val False else Inr tr)"

subsection \<open>Execution options\<close>

text \<open>
  What the program reads from its host: the current directory, the environment, the
  line terminator \<^verbatim>\<open>os.EOL\<close>.
\<close>

record platform =
  process_cwd :: string
  process_env :: "(string \<times> string) list"
  EOL :: string

datatype stream = ProcessStdout | ProcessStderr | UserStream nat

text \<open>
  The options as a caller passes them: every field may be missing. \<open>ExecOps\<close> is the
  object \<^verbatim>\<open>ops\<close> that \<^verbatim>\<open>exec\<close> and \<^verbatim>\<open>execSync\<close> build from them.
\<close>

record IExecOptions =
  cwd :: "string option"
  env :: "(string \<times> string) list option"
  silent :: "bool option"
  failOnStdErr :: "bool option"
  ignoreReturnCode :: "bool option"
  outStream :: "stream option"
  errStream :: "stream option"

record ExecOps =
  ops_cwd :: string
  ops_env :: "(string \<times> string) list"
  ops_silent :: bool
  ops_outStream :: stream
  ops_errStream :: stream
  ops_failOnStdErr :: bool
  ops_ignoreReturnCode :: bool

definition noOptions :: IExecOptions where
  "noOptions =
     \<lparr>cwd = None, env = None, silent = None, failOnStdErr = None, ignoreReturnCode = None,
      outStream = None, errStream = None\<rparr>"

text \<open>\<^verbatim>\<open>x || d\<close> on an optional value; the empty string and \<^verbatim>\<open>false\<close> are falsy.\<close>

definition orString :: "string option \<Rightarrow> string \<Rightarrow> string" where
  "orString x d = (case x of None \<Rightarrow> d | Some v \<Rightarrow> (if v = [] then d else v))"

definition orBool :: "bool option \<Rightarrow> bool \<Rightarrow> bool" where
  "orBool x d = (case x of None \<Rightarrow> d | Some v \<Rightarrow> (if v then v else d))"

definition orObject :: "'a option \<Rightarrow> 'a \<Rightarrow> 'a" where
  "orObject x d = (case x of None \<Rightarrow> d | Some v \<Rightarrow> v)"

definition resolveOptions :: "platform \<Rightarrow> IExecOptions option \<Rightarrow> ExecOps" where
  "resolveOptions P options =
     (let options = orObject options noOptions in
      \<lparr>ops_cwd = orString (cwd options) (process_cwd P),
       ops_env = orObject (env options) (process_env P),
       ops_silent = orBool (silent options) False,
       ops_outStream = orObject (outStream options) ProcessStdout,
       ops_errStream = orObject (errStream options) ProcessStderr,
       ops_failOnStdErr = orBool (failOnStdErr options) False,
       ops_ignoreReturnCode = orBool (ignoreReturnCode options) False\<rparr>)"

text \<open>\<^verbatim>\<open>Array.prototype.join\<close> and the command line that is echoed.\<close>

fun join :: "string \<Rightarrow> string list \<Rightarrow> string" where
  "join sep [] = []"
| "join sep [x] = x"
| "join sep (x # y # ys) = x @ sep @ join sep (y # ys)"

definition cmdString :: "ToolRunner \<Rightarrow> string" where
  "cmdString tr =
     (let argString = join '' '' (args tr) in
      if argString = [] then toolPath tr else toolPath tr @ '' '' @ argString)"

definition commandEcho :: "platform \<Rightarrow> ExecOps \<Rightarrow> ToolRunner \<Rightarrow> (stream \<times> string) list" where
  "commandEcho P ops tr =
     (if \<not> ops_silent ops then [(ops_outStream ops, ''[command]'' @ cmdString tr @ EOL P)]
      else [])"

subsection \<open>Numbers and booleans as text\<close>

text \<open>An exit code is an integer or \<^verbatim>\<open>null\<close>; string concatenation renders it in decimal.\<close>

definition digit :: "nat \<Rightarrow> char" where
  "digit n = ''0123456789'' ! (n mod 10)"

function showNat :: "nat \<Rightarrow> string" where
  "showNat n = (if n < 10 then [digit n] else showNat (n div 10) @ [digit n])"
  by pat_completeness auto
termination
  by (relation "measure id") auto

definition showInt :: "int \<Rightarrow> string" where
  "showInt i = (if i < 0 then CHR ''-'' # showNat (nat (- i)) else showNat (nat i))"

definition showCode :: "int option \<Rightarrow> string" where
  "showCode code = (case code of None \<Rightarrow> ''null'' | Some i \<Rightarrow> showInt i)"

definition showBool :: "bool \<Rightarrow> string" where
  "showBool b = (if b then ''true'' else ''false'')"

subsection \<open>The streaming path: \<^verbatim>\<open>exec\<close>\<close>

text \<open>
  The deferred of the promise library is settled at most once: \<^verbatim>\<open>resolve\<close> and
  \<^verbatim>\<open>reject\<close> on a settled deferred change nothing.
\<close>

datatype promise = Pending | Resolved "int option" | Rejected string

definition settle :: "promise \<Rightarrow> promise \<Rightarrow> promise" where
  "settle p outcome = (if p = Pending then outcome else p)"

text \<open>
  What the child process reports: a chunk on its standard output or standard error, a
  launch error with its message, or its exit with a code and a signal.
\<close>

datatype child_event =
    StdoutData string
  | StderrData string
  | ChildError string
  | Exit "int option" "string option"

text \<open>
  The state of one call of \<^verbatim>\<open>exec\<close>: the variable \<^verbatim>\<open>success\<close>, the deferred, what
  has been written to which stream, and the events emitted on the tool runner, each with
  its name and its payload.
\<close>

record exec_state =
  success :: bool
  promise :: promise
  writes :: "(stream \<times> string) list"
  emitted :: "(string \<times> string) list"

definition debugEvent :: "string \<Rightarrow> string \<times> string" where
  "debugEvent message = (''debug'', message)"

definition startDebug :: "ToolRunner \<Rightarrow> (string \<times> string) list" where
  "startDebug tr =
     [debugEvent (''exec tool: '' @ toolPath tr), debugEvent ''Arguments:'']
     @ map (\<lambda>a. debugEvent (''   '' @ a)) (args tr)"

text \<open>\<^verbatim>\<open>exec\<close> up to and including the call of \<^verbatim>\<open>child.spawn\<close>.\<close>

definition exec_start :: "platform \<Rightarrow> ExecOps \<Rightarrow> ToolRunner \<Rightarrow> exec_state" where
  "exec_start P ops tr =
     \<lparr>success = True, promise = Pending, writes = commandEcho P ops tr,
      emitted = startDebug tr\<rparr>"

text \<open>The four handlers that \<^verbatim>\<open>exec\<close> registers on the child process.\<close>

fun exec_step :: "ExecOps \<Rightarrow> ToolRunner \<Rightarrow> exec_state \<Rightarrow> child_event \<Rightarrow> exec_state" where
  "exec_step ops tr st (StdoutData data) =
     st\<lparr>emitted := emitted st @ [(''stdout'', data)],
        writes := writes st @ (if \<not> ops_silent ops then [(ops_outStream ops, data)] else [])\<rparr>"
| "exec_step ops tr st (StderrData data) =
     st\<lparr>emitted := emitted st @ [(''stderr'', data)],
        success := \<not> ops_failOnStdErr ops,
        writes := writes st @
          (if \<not> ops_silent ops
           then [(if ops_failOnStdErr ops then ops_errStream ops else ops_outStream ops, data)]
           else [])\<rparr>"
| "exec_step ops tr st (ChildError message) =
     st\<lparr>promise := settle (promise st) (Rejected (toolPath tr @ '' failed. '' @ message))\<rparr>"
| "exec_step ops tr st (Exit code signal) =
     (let success' = (if code \<noteq> Some 0 \<and> \<not> ops_ignoreReturnCode ops then False else success st)
      in st\<lparr>emitted := emitted st @
                [debugEvent (''rc:'' @ showCode code),
                 debugEvent (''success:'' @ showBool success')],
            success := success',
            promise := settle (promise st)
              (if success' then Resolved code
               else Rejected (toolPath tr @ '' failed with return code: '' @ showCode code))\<rparr>)"

definition exec_run :: "ExecOps \<Rightarrow> ToolRunner \<Rightarrow> exec_state \<Rightarrow> child_event list \<Rightarrow> exec_state" where
  "exec_run ops tr st evs = foldl (exec_step ops tr) st evs"

text \<open>
  \<^verbatim>\<open>exec\<close> when \<^verbatim>\<open>child.spawn\<close> has returned a child process, which reports the events
  \<open>evs\<close> in this order. \<^verbatim>\<open>child.spawn\<close> may also throw; the call as a whole, with that
  outcome, is \<open>exec_call\<close> below.
\<close>

definition exec :: "platform \<Rightarrow> ToolRunner \<Rightarrow> IExecOptions option \<Rightarrow> child_event list \<Rightarrow> exec_state" where
  "exec P tr options evs =
     (let ops = resolveOptions P options in exec_run ops tr (exec_start P ops tr) evs)"

subsection \<open>The blocking path: \<^verbatim>\<open>execSync\<close>\<close>

text \<open>
  What \<^verbatim>\<open>child.spawnSync\<close> returns, when it returns: the exit status (\<^verbatim>\<open>null\<close> when there is none), the
  collected output (missing when the process could not be started) and the platform's
  error, if any.
\<close>

record spawnSyncResult =
  sp_status :: "int option"
  sp_stdout :: "string option"
  sp_stderr :: "string option"
  sp_error :: "string option"

record IExecResult =
  stdout :: "string option"
  stderr :: "string option"
  code :: "int option"
  error :: "string option"

text \<open>
  \<^verbatim>\<open>if (b && b.length > 0) { s.write(b); }\<close> on a collected buffer \<open>b\<close> and a
  stream \<open>s\<close>.
\<close>

definition writeIfNonEmpty :: "stream \<Rightarrow> string option \<Rightarrow> (stream \<times> string) list" where
  "writeIfNonEmpty s b =
     (case b of None \<Rightarrow> [] | Some buf \<Rightarrow> (if length buf > 0 then [(s, buf)] else []))"

record sync_outcome =
  result :: IExecResult
  sync_writes :: "(stream \<times> string) list"
  sync_emitted :: "(string \<times> string) list"

text \<open>
  \<^verbatim>\<open>execSync\<close> when \<^verbatim>\<open>child.spawnSync\<close> has returned \<open>r\<close>; the call as a whole, with
  a \<^verbatim>\<open>child.spawnSync\<close> that throws, is \<open>execSync_call\<close> below.
\<close>

definition execSync :: "platform \<Rightarrow> ToolRunner \<Rightarrow> IExecOptions option \<Rightarrow> spawnSyncResult \<Rightarrow> sync_outcome" where
  "execSync P tr options r =
     (let ops = resolveOptions P options in
      \<lparr>result = \<lparr>stdout = sp_stdout r, stderr = sp_stderr r, code = sp_status r,
                 error = sp_error r\<rparr>,
       sync_writes = commandEcho P ops tr
         @ writeIfNonEmpty (ops_outStream ops) (sp_stdout r)
         @ writeIfNonEmpty (ops_errStream ops) (sp_stderr r),
       sync_emitted = startDebug tr\<rparr>)"

subsection \<open>A launch that throws\<close>

text \<open>
  \<^verbatim>\<open>child.spawn\<close> and \<^verbatim>\<open>child.spawnSync\<close> are called outside any \<^verbatim>\<open>try\<close>. Each
  either returns (a child process that reports events, or the collected result) or throws
  an exception with a message, as it does for a working directory that is a regular file
  or a tool path that is empty.
\<close>

datatype 'a spawned = SpawnThrows string | SpawnReturns 'a

text \<open>
  What a call of \<^verbatim>\<open>exec\<close> comes to. \<open>ExecRaised\<close>: the exception of \<^verbatim>\<open>child.spawn\<close>
  leaves \<^verbatim>\<open>exec\<close>, which returns no promise; the state is what had been written and
  emitted before. \<open>ExecReturned\<close>: the promise is returned, and the state is the one the
  handlers reach.
\<close>

datatype exec_outcome = ExecRaised string exec_state | ExecReturned exec_state

definition exec_call ::
  "platform \<Rightarrow> ToolRunner \<Rightarrow> IExecOptions option \<Rightarrow> child_event list spawned \<Rightarrow> exec_outcome" where
  "exec_call P tr options sp =
     (case sp of
        SpawnThrows message \<Rightarrow>
          ExecRaised message (exec_start P (resolveOptions P options) tr)
      | SpawnReturns evs \<Rightarrow> ExecReturned (exec P tr options evs))"

text \<open>
  What a call of \<^verbatim>\<open>execSync\<close> comes to. \<open>SyncRaised\<close>: the exception of
  \<^verbatim>\<open>child.spawnSync\<close> leaves \<^verbatim>\<open>execSync\<close>, which returns no result; only the echo of the
  command line has been written.
\<close>

datatype execSync_outcome =
    SyncRaised string "(stream \<times> string) list"
  | SyncReturned sync_outcome

definition execSync_call ::
  "platform \<Rightarrow> ToolRunner \<Rightarrow> IExecOptions option \<Rightarrow> spawnSyncResult spawned \<Rightarrow> execSync_outcome" where
  "execSync_call P tr options sp =
     (case sp of
        SpawnThrows message \<Rightarrow>
          SyncRaised message (commandEcho P (resolveOptions P options) tr)
      | SpawnReturns r \<Rightarrow> SyncReturned (execSync P tr options r))"


fun isStderr :: "child_event \<Rightarrow> bool" where
  "isStderr (StderrData d) = True"
| "isStderr (StdoutData d) = False"
| "isStderr (ChildError m) = False"
| "isStderr (Exit c sg) = False"

fun isExit :: "child_event \<Rightarrow> bool" where
  "isExit (Exit c sg) = True"
| "isExit (StdoutData d) = False"
| "isExit (StderrData d) = False"
| "isExit (ChildError m) = False"

text \<open>A host and a tool runner on which the theorems below are tried.\<close>

definition demoPlatform :: platform where
  "demoPlatform =
     \<lparr>process_cwd = ''/work'', process_env = [(''PATH'', ''/bin'')], EOL = [CHR 0x0A]\<rparr>"

definition demoTool :: ToolRunner where
  "demoTool = \<lparr>toolPath = ''/bin/ls'', args = [''-l''], quiet = False\<rparr>"

section \<open>Properties\<close>

declare showNat.simps [simp del]

lemmas demo_defs = demoPlatform_def demoTool_def noOptions_def resolveOptions_def orString_def
  orBool_def orObject_def exec_def exec_run_def exec_start_def commandEcho_def cmdString_def
  startDebug_def debugEvent_def settle_def showBool_def

lemmas tokenizer_defs = argStringToArray_def js_match_def matchHere_def argRegex_def
  removeQuotes_def

subsection \<open>The tokenizer\<close>

lemma rmatch_argRegex_space: "rmatch argRegex (CHR '' '' # t) = []"
  by (simp add: argRegex_def)

lemma rmatch_argRegex_Nil: "rmatch argRegex [] = []"
  by (simp add: argRegex_def)

lemma matchAll_spaces: "set s \<subseteq> {CHR '' ''} \<Longrightarrow> matchAll argRegex s = []"
proof (induction s)
  case Nil
  show ?case by (simp add: matchHere_def rmatch_argRegex_Nil)
next
  case (Cons c s)
  then have "c = CHR '' ''" and "matchAll argRegex s = []" by simp_all
  then show ?case by (simp add: matchHere_def rmatch_argRegex_space)
qed

text \<open>
  A string that is not empty and holds nothing but spaces has no match, and \<^verbatim>\<open>arg\<close>
  raises on it.
\<close>

lemma arg_only_spaces:
  "s \<noteq> [] \<Longrightarrow> set s \<subseteq> {CHR '' ''} \<Longrightarrow> arg tr (Str s) False = Inl TypeError"
  by (simp add: argStringToArray_def js_match_def matchAll_spaces del: matchAll.simps)

text \<open>
  Claim C1 says that tokenization never fails, also on a string of spaces only or with
  unbalanced quotes. On the string of three spaces and on the string that is one double
  quote, \<^verbatim>\<open>match\<close> returns \<^verbatim>\<open>null\<close> and \<^verbatim>\<open>arg\<close> in non-literal mode raises a
  \<^verbatim>\<open>TypeError\<close>.
\<close>

theorem arg_spaces_throws:
  "arg tr (Str ''   '') False = Inl TypeError \<and> arg tr (Str [CHR 0x22]) False = Inl TypeError"
  by (simp add: tokenizer_defs)

lemma append_token_changes: "tr\<lparr>args := args tr @ [t]\<rparr> \<noteq> tr"
proof
  assume "tr\<lparr>args := args tr @ [t]\<rparr> = tr"
  then have "args (tr\<lparr>args := args tr @ [t]\<rparr>) = args tr" by simp
  then show False by simp
qed

text \<open>
  Claim C6: in non-literal mode, \<^verbatim>\<open>"arg one" two -z\<close> appends exactly the tokens
  \<^verbatim>\<open>arg one\<close>, \<^verbatim>\<open>two\<close> and \<^verbatim>\<open>-z\<close>, and \<^verbatim>\<open>a"b"c\<close> appends exactly \<^verbatim>\<open>abc\<close>; an empty
  or absent value leaves the tool runner as it is, which is not what appending an empty
  token gives.
\<close>

theorem arg_examples:
  "arg tr (Str ''\"arg one\" two -z'') False =
     Inr (tr\<lparr>args := args tr @ [''arg one'', ''two'', ''-z'']\<rparr>)
   \<and> arg tr (Str ''a\"b\"c'') False = Inr (tr\<lparr>args := args tr @ [''abc'']\<rparr>)
   \<and> arg tr (Str []) literal = Inr tr
   \<and> arg tr Absent literal = Inr tr
   \<and> arg tr (Str []) literal \<noteq> Inr (tr\<lparr>args := args tr @ [[]]\<rparr>)"
  using append_token_changes [of tr "[]"]
  by (simp add: tokenizer_defs neq_commute)

lemma removeQuotes_no_quote: "CHR 0x22 \<notin> set (removeQuotes m)"
  by (simp add: removeQuotes_def)

lemma argStringToArray_no_quote:
  "argStringToArray s = Inr ts \<Longrightarrow> t \<in> set ts \<Longrightarrow> CHR 0x22 \<notin> set t"
  by (auto simp: argStringToArray_def removeQuotes_no_quote split: option.splits)

text \<open>
  Claim C7: whenever tokenization of a string succeeds, no token it returns holds a double
  quote, and so no token that \<^verbatim>\<open>arg\<close> appends in non-literal mode does.
\<close>

theorem tokens_have_no_quote:
  "(argStringToArray s = Inr ts \<longrightarrow> (\<forall>t\<in>set ts. CHR 0x22 \<notin> set t)) \<and>
   (arg tr (Str s) False = Inr tr' \<longrightarrow>
      (\<exists>ts. args tr' = args tr @ ts \<and> (\<forall>t\<in>set ts. CHR 0x22 \<notin> set t)))"
proof (intro conjI impI)
  assume "argStringToArray s = Inr ts"
  then show "\<forall>t\<in>set ts. CHR 0x22 \<notin> set t"
    using argStringToArray_no_quote by blast
next
  assume a: "arg tr (Str s) False = Inr tr'"
  show "\<exists>ts. args tr' = args tr @ ts \<and> (\<forall>t\<in>set ts. CHR 0x22 \<notin> set t)"
  proof (cases "s = []")
    case True
    with a have "tr' = tr" by simp
    then show ?thesis by simp
  next
    case False
    with a obtain ts where ts: "argStringToArray s = Inr ts"
      and tr': "tr' = tr\<lparr>args := args tr @ ts\<rparr>"
      by (auto split: sum.splits)
    from ts have "\<forall>t\<in>set ts. CHR 0x22 \<notin> set t"
      using argStringToArray_no_quote by blast
    with tr' show ?thesis by simp
  qed
qed

theorem tokens_have_no_quote_witness:
  "argStringToArray ''a\"b\" \"c d\"'' = Inr [''ab'', ''c d''] \<and>
   CHR 0x22 \<notin> set ''ab'' \<and> CHR 0x22 \<notin> set ''c d''"
proof -
  have h: "argStringToArray ''a\"b\" \"c d\"'' = Inr [''ab'', ''c d'']"
    by (simp add: tokenizer_defs)
  from tokens_have_no_quote [of "''a\"b\" \"c d\"''" "[''ab'', ''c d'']"] h show ?thesis
    by simp
qed

subsection \<open>The streaming path\<close>


lemma showCode_1: "showCode (Some 1) = ''1''"
  by (simp add: showCode_def showInt_def showNat.simps digit_def)

lemma exec_run_Nil: "exec_run ops tr st [] = st"
  by (simp add: exec_run_def)

lemma exec_run_Cons:
  "exec_run ops tr st (e # evs) = exec_run ops tr (exec_step ops tr st e) evs"
  by (simp add: exec_run_def)

lemma exec_run_append:
  "exec_run ops tr st (xs @ ys) = exec_run ops tr (exec_run ops tr st xs) ys"
  by (simp add: exec_run_def)

text \<open>A settled promise stays as it is, whatever the child process reports later.\<close>

lemma promise_step_settled:
  "promise st \<noteq> Pending \<Longrightarrow> promise (exec_step ops tr st e) = promise st"
  by (cases e) (simp_all add: settle_def Let_def)

lemma promise_run_settled:
  "promise st \<noteq> Pending \<Longrightarrow> promise (exec_run ops tr st evs) = promise st"
  by (induction evs arbitrary: st) (simp_all add: exec_run_Nil exec_run_Cons promise_step_settled)





text \<open>
  Before the exit is reported, the flag is only ever cleared by a chunk on stderr under
  \<^verbatim>\<open>failOnStdErr\<close>.
\<close>

lemma success_no_exit_run:
  "\<forall>e\<in>set evs. \<not> isExit e \<Longrightarrow> \<not> success (exec_run ops tr st evs) \<Longrightarrow>
     \<not> success st \<or> ops_failOnStdErr ops"
proof (induction evs rule: rev_induct)
  case Nil
  then show ?case by (simp add: exec_run_Nil)
next
  case (snoc e evs)
  then show ?case
    by (cases e) (auto simp: exec_run_append exec_run_Nil exec_run_Cons)
qed

lemma success_step_not_stderr:
  "\<not> isStderr e \<Longrightarrow> success (exec_step ops tr st e) \<Longrightarrow> success st"
  by (cases e) (auto simp: Let_def split: if_splits)

text \<open>
  Claim C3: when the exit with code \<open>c\<close> is reported to a call whose promise is still
  pending, the flag is cleared if \<open>c\<close> is not 0 and \<^verbatim>\<open>ignoreReturnCode\<close> is false, and
  is otherwise left as it was; if the flag is then true the promise resolves with \<open>c\<close>, and
  if it is false the promise rejects with the message made of the tool path,
  \<^verbatim>\<open> failed with return code: \<close> and the code. With exit code 1 and \<^verbatim>\<open>ignoreReturnCode\<close>
  the promise resolves with 1.
\<close>

theorem exit_verdict:
  assumes "promise st = Pending"
  shows "let st' = exec_step ops tr st (Exit c sg) in
     success st' = (success st \<and> \<not> (c \<noteq> Some 0 \<and> \<not> ops_ignoreReturnCode ops)) \<and>
     (success st' \<longrightarrow> promise st' = Resolved c) \<and>
     (\<not> success st' \<longrightarrow>
        promise st' = Rejected (toolPath tr @ '' failed with return code: '' @ showCode c)) \<and>
     (c = Some 1 \<and> ops_ignoreReturnCode ops \<and> success st \<longrightarrow> promise st' = Resolved (Some 1))"
  using assms by (auto simp: Let_def settle_def)

theorem exit_verdict_witness:
  "promise (exec demoPlatform demoTool None [StdoutData ''a'']) = Pending \<and>
   promise (exec demoPlatform demoTool None [StdoutData ''a'', Exit (Some 1) None]) =
     Rejected ''/bin/ls failed with return code: 1'' \<and>
   promise (exec demoPlatform demoTool (Some (noOptions\<lparr>ignoreReturnCode := Some True\<rparr>))
     [StdoutData ''a'', Exit (Some 1) None]) = Resolved (Some 1)"
  using exit_verdict [of "exec demoPlatform demoTool None [StdoutData ''a'']"
      "resolveOptions demoPlatform None" demoTool "Some 1" None]
    exit_verdict [of "exec demoPlatform demoTool (Some (noOptions\<lparr>ignoreReturnCode := Some True\<rparr>))
        [StdoutData ''a'']"
      "resolveOptions demoPlatform (Some (noOptions\<lparr>ignoreReturnCode := Some True\<rparr>))"
      demoTool "Some 1" None]
  by (simp add: demo_defs showCode_1)




text \<open>
  Claim C5 says that no step sets the flag back to true. The handler of stderr assigns the
  negation of \<^verbatim>\<open>failOnStdErr\<close>: with the default options, the exit with code 1 clears the
  flag, and a chunk on stderr reported after it sets the flag to true again.
\<close>

theorem flag_reset_counterexample:
  "success (exec demoPlatform demoTool None [Exit (Some 1) None]) = False \<and>
   success (exec demoPlatform demoTool None [Exit (Some 1) None, StderrData ''late'']) = True"
  by (simp add: demo_defs)

text \<open>
  Claim C5, amended: the flag starts true, and a step leaves it unchanged or sets it to
  false whenever the step is not a chunk on stderr, or no exit has been reported before it;
  so the flag is monotone on every run up to and including the exit.
\<close>

theorem success_monotone_until_exit:
  assumes "(\<forall>ev\<in>set evs. \<not> isExit ev) \<or> \<not> isStderr e"
  shows "success (exec_start P ops tr) \<and>
         (success (exec_step ops tr (exec_run ops tr (exec_start P ops tr) evs) e)
            \<longrightarrow> success (exec_run ops tr (exec_start P ops tr) evs))"
proof
  show "success (exec_start P ops tr)" by (simp add: exec_start_def)
next
  let ?st = "exec_run ops tr (exec_start P ops tr) evs"
  show "success (exec_step ops tr ?st e) \<longrightarrow> success ?st"
  proof (cases "isStderr e")
    case False
    then show ?thesis using success_step_not_stderr by blast
  next
    case True
    with assms have noexit: "\<forall>ev\<in>set evs. \<not> isExit ev" by blast
    show ?thesis
    proof
      assume after: "success (exec_step ops tr ?st e)"
      from True after have "\<not> ops_failOnStdErr ops" by (cases e) simp_all
      moreover have "success (exec_start P ops tr)" by (simp add: exec_start_def)
      ultimately show "success ?st"
        using success_no_exit_run [OF noexit, of ops tr "exec_start P ops tr"] by blast
    qed
  qed
qed

theorem success_monotone_until_exit_witness:
  "\<not> isExit (StderrData ''a'') \<and>
   success (exec_start demoPlatform
      (resolveOptions demoPlatform (Some (noOptions\<lparr>failOnStdErr := Some True\<rparr>))) demoTool) \<and>
   \<not> success (exec demoPlatform demoTool (Some (noOptions\<lparr>failOnStdErr := Some True\<rparr>))
      [StderrData ''a'']) \<and>
   \<not> success (exec demoPlatform demoTool (Some (noOptions\<lparr>failOnStdErr := Some True\<rparr>))
      [StderrData ''a'', StderrData ''b''])"
  using success_monotone_until_exit [of "[StderrData ''a'']" "StderrData ''b''" demoPlatform
      "resolveOptions demoPlatform (Some (noOptions\<lparr>failOnStdErr := Some True\<rparr>))" demoTool]
  by (simp add: demo_defs)

text \<open>
  Claim C8 says that every launch failure is a rejection on the streaming path and a
  result with the field \<^verbatim>\<open>error\<close> on the blocking path. When \<^verbatim>\<open>child.spawn\<close> throws,
  as it does for a working directory that is a regular file, \<^verbatim>\<open>exec\<close> raises that
  exception and returns no promise; when \<^verbatim>\<open>child.spawnSync\<close> throws, as it does for an
  empty tool path, \<^verbatim>\<open>execSync\<close> raises and returns no result.
\<close>

theorem launch_throws_counterexample:
  "exec_call demoPlatform demoTool (Some (noOptions\<lparr>cwd := Some ''/etc/hostname''\<rparr>))
      (SpawnThrows ''spawn ENOTDIR'') =
     ExecRaised ''spawn ENOTDIR''
       \<lparr>success = True, promise = Pending,
        writes = [(ProcessStdout, ''[command]/bin/ls -l'' @ [CHR 0x0A])],
        emitted = [(''debug'', ''exec tool: /bin/ls''), (''debug'', ''Arguments:''),
                   (''debug'', ''   -l'')]\<rparr>
   \<and> execSync_call demoPlatform (demoTool\<lparr>toolPath := []\<rparr>) None
      (SpawnThrows ''Bad argument'') =
     SyncRaised ''Bad argument'' [(ProcessStdout, ''[command] -l'' @ [CHR 0x0A])]"
  by (simp add: exec_call_def execSync_call_def demo_defs)

text \<open>
  Claim C8, amended: whatever the options, a launch failure that the child process reports
  as its \<^verbatim>\<open>error\<close> event makes the streaming path return a promise that rejects with the
  message made of the tool path, \<^verbatim>\<open> failed. \<close> and the platform's message, and nothing
  reported afterwards changes that; the handler neither touches the flag nor emits the
  debug events of the exit handler. A launch failure that \<^verbatim>\<open>child.spawnSync\<close> reports in
  the field \<^verbatim>\<open>error\<close> of its result makes the blocking path return a result with that
  error in its field \<^verbatim>\<open>error\<close>. A launch failure on which \<^verbatim>\<open>child.spawn\<close> or
  \<^verbatim>\<open>child.spawnSync\<close> throws leaves \<^verbatim>\<open>exec\<close> or \<^verbatim>\<open>execSync\<close> as that exception, after
  the echo of the command line, with no promise and no result.
\<close>

theorem launch_failure_fails:
  "exec_call P tr options (SpawnReturns (ChildError message # evs)) =
     ExecReturned (exec P tr options (ChildError message # evs))
   \<and> promise (exec P tr options (ChildError message # evs)) =
     Rejected (toolPath tr @ '' failed. '' @ message)
   \<and> success (exec P tr options [ChildError message]) = True
   \<and> emitted (exec P tr options [ChildError message]) = startDebug tr
   \<and> execSync_call P tr options (SpawnReturns (r\<lparr>sp_error := Some e\<rparr>)) =
     SyncReturned (execSync P tr options (r\<lparr>sp_error := Some e\<rparr>))
   \<and> error (result (execSync P tr options (r\<lparr>sp_error := Some e\<rparr>))) = Some e
   \<and> exec_call P tr options (SpawnThrows thrown) =
     ExecRaised thrown (exec_start P (resolveOptions P options) tr)
   \<and> execSync_call P tr options (SpawnThrows thrown) =
     SyncRaised thrown (commandEcho P (resolveOptions P options) tr)"
proof (intro conjI)
  let ?ops = "resolveOptions P options"
  let ?st1 = "exec_step ?ops tr (exec_start P ?ops tr) (ChildError message)"
  have "promise ?st1 = Rejected (toolPath tr @ '' failed. '' @ message)"
    by (simp add: exec_start_def settle_def)
  moreover from this have "promise (exec_run ?ops tr ?st1 evs) = promise ?st1"
    by (intro promise_run_settled) simp
  ultimately show "promise (exec P tr options (ChildError message # evs)) =
      Rejected (toolPath tr @ '' failed. '' @ message)"
    by (simp add: exec_def Let_def exec_run_Cons)
qed (simp_all add: exec_call_def execSync_call_def exec_def Let_def exec_run_Cons exec_run_Nil
    exec_start_def execSync_def)

subsection \<open>The blocking path\<close>

text \<open>
  Claim C2 says that under \<^verbatim>\<open>silent\<close> the blocking path writes neither the captured
  stdout nor the captured stderr. \<^verbatim>\<open>execSync\<close> tests \<^verbatim>\<open>silent\<close> for the echo of the
  command line only: with \<^verbatim>\<open>silent\<close> true, the captured \<^verbatim>\<open>hello\<close> is written to the
  output stream and the captured \<^verbatim>\<open>warn\<close> to the error stream.
\<close>

theorem execSync_silent_still_writes:
  "sync_writes (execSync demoPlatform demoTool (Some (noOptions\<lparr>silent := Some True\<rparr>))
      \<lparr>sp_status = Some 0, sp_stdout = Some ''hello'', sp_stderr = Some ''warn'',
       sp_error = None\<rparr>) =
     [(ProcessStdout, ''hello''), (ProcessStderr, ''warn'')]"
  by (simp add: execSync_def writeIfNonEmpty_def demo_defs)

text \<open>
  Claim C9: the blocking path returns the exit status as \<^verbatim>\<open>code\<close>, the captured output
  as \<^verbatim>\<open>stdout\<close> and \<^verbatim>\<open>stderr\<close>, and the platform's error as \<^verbatim>\<open>error\<close>; for a child
  process that terminated normally, with whatever status, that is the status, the output
  and no error. It has no branch that raises.
\<close>

theorem execSync_result:
  "result (execSync P tr options r) =
     \<lparr>stdout = sp_stdout r, stderr = sp_stderr r, code = sp_status r, error = sp_error r\<rparr>
   \<and> result (execSync P tr options
        \<lparr>sp_status = Some c, sp_stdout = Some out, sp_stderr = Some err, sp_error = None\<rparr>) =
     \<lparr>stdout = Some out, stderr = Some err, code = Some c, error = None\<rparr>"
  by (simp add: execSync_def Let_def)

text \<open>
  Claim C10: after the echo of the command line, the blocking path writes the captured
  stdout to \<^verbatim>\<open>outStream\<close> and the captured stderr to \<^verbatim>\<open>errStream\<close>, each exactly when
  it is there and not empty; the option \<^verbatim>\<open>failOnStdErr\<close> changes nothing of what is
  written where. On the streaming path \<^verbatim>\<open>failOnStdErr\<close> chooses the stream of a chunk on
  stderr.
\<close>

theorem execSync_routing:
  "sync_writes (execSync P tr options r) =
     commandEcho P (resolveOptions P options) tr
     @ (case sp_stdout r of None \<Rightarrow> []
        | Some b \<Rightarrow> if b \<noteq> [] then [(ops_outStream (resolveOptions P options), b)] else [])
     @ (case sp_stderr r of None \<Rightarrow> []
        | Some b \<Rightarrow> if b \<noteq> [] then [(ops_errStream (resolveOptions P options), b)] else [])
   \<and> sync_writes (execSync P tr (Some (opts\<lparr>failOnStdErr := f\<rparr>)) r) =
       sync_writes (execSync P tr (Some opts) r)
   \<and> writes (exec_step ops tr st (StderrData d)) =
       writes st @
         (if ops_silent ops then []
          else [(if ops_failOnStdErr ops then ops_errStream ops else ops_outStream ops, d)])"
  by (simp add: execSync_def Let_def writeIfNonEmpty_def resolveOptions_def commandEcho_def
      orObject_def split: option.splits)

end
